theory Spec2Isabelle
  imports Main "HOL-Library.Word"
begin

section \<open>JavaScript values\<close>

text \<open>
  The command-line front end \<^verbatim>\<open>mb.js\<close> is a Node.js script. The values it handles are
  the option values and positional tokens produced by the command-line parser
  (strings, numbers, booleans, or \<^verbatim>\<open>undefined\<close> for an option that was not given),
  environment variables (strings or \<^verbatim>\<open>undefined\<close>) and the numbers computed by
  \<^verbatim>\<open>parseInt\<close>.

  The theory follows the script as it stands in the file \<^verbatim>\<open>mb.js\<close>; line numbers refer
  to that file. The sources hold a second, later copy of the script after the ESLint
  configuration, which adds an action \<^verbatim>\<open>generic\<close>, a write type \<^verbatim>\<open>object\<close>, tokens
  of the form \<^verbatim>\<open>value:count\<close>, an option \<^verbatim>\<open>--unit\<close> and a connection kind \<^verbatim>\<open>can\<close>.
  None of these is in \<^verbatim>\<open>mb.js\<close>, and the later copy is not modelled.

  Numbers are integers or \<^verbatim>\<open>NaN\<close>. A JavaScript number is a double: the model is exact
  for integers of magnitude up to \<open>2 ^ 53\<close>; fractions and infinities are outside it.
  The comparisons of the program are against 0, 255 and 65535, where rounding of a
  larger value does not change the result.
\<close>

datatype jsnum = NaN | Fin int

datatype jsval = JUndefined | JBool bool | JNum jsnum | JStr string

text \<open>Truthiness, as tested by \<^verbatim>\<open>if (x)\<close>, \<^verbatim>\<open>!x\<close> and \<^verbatim>\<open>x || y\<close>.\<close>

fun truthy :: "jsval \<Rightarrow> bool" where
  "truthy JUndefined = False"
| "truthy (JBool b) = b"
| "truthy (JNum NaN) = False"
| "truthy (JNum (Fin n)) = (n \<noteq> 0)"
| "truthy (JStr s) = (s \<noteq> [])"

text \<open>\<^verbatim>\<open>a || b\<close>: the left operand when it is truthy, otherwise the right one.\<close>

definition js_or :: "jsval \<Rightarrow> jsval \<Rightarrow> jsval" where
  "js_or a b = (if truthy a then a else b)"

text \<open>\<^verbatim>\<open>xs[i]\<close>: reading an array past its end gives \<^verbatim>\<open>undefined\<close>.\<close>

definition js_index :: "jsval list \<Rightarrow> nat \<Rightarrow> jsval" where
  "js_index xs i = (if i < length xs then xs ! i else JUndefined)"



subsection \<open>Conversion to strings\<close>

definition digit_char :: "nat \<Rightarrow> char" where
  "digit_char d = char_of (48 + d)"

fun dec_digits :: "nat \<Rightarrow> string" where
  "dec_digits n = (if n < 10 then [digit_char n] else dec_digits (n div 10) @ [digit_char (n mod 10)])"

declare dec_digits.simps [simp del]

fun num_to_string :: "jsnum \<Rightarrow> string" where
  "num_to_string NaN = ''NaN''"
| "num_to_string (Fin n) = (if n < 0 then CHR ''-'' # dec_digits (nat (- n)) else dec_digits (nat n))"

text \<open>The abstract operation ToString, applied by string concatenation and by \<^verbatim>\<open>parseInt\<close>.\<close>

fun to_string :: "jsval \<Rightarrow> string" where
  "to_string JUndefined = ''undefined''"
| "to_string (JBool b) = (if b then ''true'' else ''false'')"
| "to_string (JNum x) = num_to_string x"
| "to_string (JStr s) = s"

text \<open>
  What ends the process. \<open>Exit c\<close> is the script's own \<^verbatim>\<open>exit(c)\<close>, which ends in
  \<^verbatim>\<open>process.exit(c)\<close>. \<open>Uncaught\<close> is an exception that no handler catches; Node.js
  then terminates the process with exit code 1.
\<close>

datatype failure = Exit nat | Uncaught

fun exit_code :: "failure \<Rightarrow> nat" where
  "exit_code (Exit c) = c"
| "exit_code Uncaught = 1"

text \<open>
  The method calls \<^verbatim>\<open>x.toString()\<close> and \<^verbatim>\<open>x.substring(k)\<close>. Reading a property of
  \<^verbatim>\<open>undefined\<close> raises a TypeError, and only strings have a \<^verbatim>\<open>substring\<close> method.
\<close>

fun method_toString :: "jsval \<Rightarrow> failure + string" where
  "method_toString JUndefined = Inl Uncaught"
| "method_toString v = Inr (to_string v)"

fun method_substring :: "jsval \<Rightarrow> nat \<Rightarrow> failure + string" where
  "method_substring (JStr s) k = Inr (drop k s)"
| "method_substring _ k = Inl Uncaught"

subsection \<open>The built-in parseInt\<close>

text \<open>
  \<^verbatim>\<open>parseInt(string, radix)\<close> as ECMAScript defines it: leading white space is skipped,
  then an optional sign; with no radix (or radix 16) a prefix \<^verbatim>\<open>0x\<close> or \<^verbatim>\<open>0X\<close> is
  removed and selects radix 16, otherwise the radix is 10 when none is given; then the longest
  run of digits of that radix is read, and whatever follows is ignored. No digit at all gives
  \<^verbatim>\<open>NaN\<close>. Strings are sequences of 8-bit characters here, so the white space characters
  are those of Latin-1.
\<close>

definition is_white :: "char \<Rightarrow> bool" where
  "is_white c = (of_char c \<in> {9, 10, 11, 12, 13, 32, 160 :: nat})"

definition digit_val :: "char \<Rightarrow> nat option" where
  "digit_val c =
     (let n = of_char c :: nat in
      if 48 \<le> n \<and> n \<le> 57 then Some (n - 48)
      else if 97 \<le> n \<and> n \<le> 122 then Some (n - 87)
      else if 65 \<le> n \<and> n \<le> 90 then Some (n - 55)
      else None)"

definition radix_digit :: "nat \<Rightarrow> char \<Rightarrow> nat option" where
  "radix_digit R c = (case digit_val c of None \<Rightarrow> None | Some d \<Rightarrow> if d < R then Some d else None)"

text \<open>
  Reading the longest prefix of radix-\<open>R\<close> digits. The accumulator is \<open>None\<close> as long as
  no digit has been read.
\<close>

fun read_digits :: "nat \<Rightarrow> string \<Rightarrow> nat option \<Rightarrow> nat option" where
  "read_digits R [] acc = acc"
| "read_digits R (c # cs) acc =
     (case radix_digit R c of
        None \<Rightarrow> acc
      | Some d \<Rightarrow> read_digits R cs (Some (case acc of None \<Rightarrow> d | Some a \<Rightarrow> a * R + d)))"

definition parseInt_string :: "string \<Rightarrow> nat option \<Rightarrow> jsnum" where
  "parseInt_string input radix =
     (let s1 = dropWhile is_white input;
          sign = (if s1 \<noteq> [] \<and> hd s1 = CHR ''-'' then - 1 else 1 :: int);
          s2 = (if s1 \<noteq> [] \<and> (hd s1 = CHR ''+'' \<or> hd s1 = CHR ''-'') then tl s1 else s1);
          given = (case radix of None \<Rightarrow> 0 | Some r \<Rightarrow> r)
      in if given \<noteq> 0 \<and> (given < 2 \<or> 36 < given) then NaN
         else
           let strip = (given = 0 \<or> given = 16);
               R0 = (if given = 0 then 10 else given);
               prefixed = (strip \<and> (take 2 s2 = ''0x'' \<or> take 2 s2 = ''0X''));
               s3 = (if prefixed then drop 2 s2 else s2);
               R = (if prefixed then 16 else R0)
           in case read_digits R s3 None of
                None \<Rightarrow> NaN
              | Some v \<Rightarrow> Fin (sign * int v))"

text \<open>\<^verbatim>\<open>parseInt(x)\<close> and \<^verbatim>\<open>parseInt(x, r)\<close> on any value: the argument is first converted to a string.\<close>

definition parseInt :: "jsval \<Rightarrow> nat option \<Rightarrow> jsnum" where
  "parseInt x radix = parseInt_string (to_string x) radix"

section \<open>The argument lexer of mb.js\<close>

text \<open>
  The three parsing functions of \<^verbatim>\<open>mb.js\<close> contain the same two-way branch: when the first
  character of the token (\<^verbatim>\<open>substring(0,1)\<close>) equals the two-character string \<^verbatim>\<open>'0x'\<close>
  the rest of the token is read with radix 16, otherwise the token is read by \<^verbatim>\<open>parseInt\<close>
  with no radix.
\<close>

definition hex_or_decimal :: "jsval \<Rightarrow> failure + jsnum" where
  "hex_or_decimal s =
     (case method_toString s of
        Inl e \<Rightarrow> Inl e
      | Inr str \<Rightarrow>
          if take 1 str = ''0x''
          then (case method_substring s 2 of
                  Inl e \<Rightarrow> Inl e
                | Inr rest \<Rightarrow> Inr (parseInt_string rest (Some 16)))
          else Inr (parseInt s None))"

text \<open>\<^verbatim>\<open>parseNumber(s, def)\<close>, lines 235-251.\<close>

definition parseNumber :: "jsval \<Rightarrow> jsnum \<Rightarrow> failure + jsnum" where
  "parseNumber s def = (if s = JUndefined then Inr def else hex_or_decimal s)"

subsection \<open>Byte and word sequences\<close>

type_synonym byte = "8 word"









section \<open>Command dispatch\<close>

text \<open>
  The object returned by the command-line parser: the options the script reads, and the
  positional tokens \<^verbatim>\<open>args._\<close>. An option that was not given is \<^verbatim>\<open>undefined\<close>.
  \<^verbatim>\<open>args.length\<close> is read by the \<^verbatim>\<open>command\<close> case of \<^verbatim>\<open>doAction\<close>.
\<close>

record args =
  opt_default :: jsval
  opt_port :: jsval
  opt_slave :: jsval
  opt_unit :: jsval
  opt_baudrate :: jsval
  opt_baud :: jsval
  opt_baudRate :: jsval
  opt_transport :: jsval
  opt_connection :: jsval
  opt_canrate :: jsval
  opt_canid :: jsval
  opt_save :: jsval
  opt_l :: jsval
  opt_h :: jsval
  opt_show :: jsval
  opt_out :: jsval
  opt_loop :: jsval
  opt_length :: jsval
  positional :: "jsval list"

text \<open>The operations of the protocol master that \<^verbatim>\<open>doAction\<close> calls, with their arguments.\<close>

datatype master_call =
    ReadCoils jsval jsval
  | ReadDiscreteInputs jsval jsval
  | ReadHoldingRegisters jsval jsval
  | ReadInputRegisters jsval jsval
  | ReportSlaveId
  | ReadFifo8 jsval jsval
  | ReadObject jsval
  | ReadMemory jsnum jsnum
  | WriteSingleCoil jsval jsval
  | WriteMultipleRegisters jsval "byte list"
  | WriteFifo8 jsval "jsval list"
  | WriteMemory jsnum "byte list"
  | Command jsval "byte list"
  | WriteObject jsval "byte list"
  | SendGeneric jsval "byte list"


definition all_digits :: "nat \<Rightarrow> string \<Rightarrow> bool" where
  "all_digits R ds = (ds \<noteq> [] \<and> list_all (\<lambda>c. radix_digit R c \<noteq> None) ds)"






section \<open>Configuration\<close>

text \<open>
  The fields of the configuration object that the start-up code reads or writes:
  \<^verbatim>\<open>port.name\<close>, \<^verbatim>\<open>port.options.baudRate\<close>, \<^verbatim>\<open>port.options.autoOpen\<close>,
  \<^verbatim>\<open>master.transport.type\<close>, \<^verbatim>\<open>master.transport.connection.type\<close>, \<^verbatim>\<open>can.rate\<close>,
  \<^verbatim>\<open>can.myid\<close> and \<^verbatim>\<open>master.defaultUnit\<close>. The other fields (the websocket settings,
  the time-outs and retry counts of the master) are never assigned and are left out.
\<close>

record config =
  port_name :: jsval
  port_baudRate :: jsval
  port_autoOpen :: jsval
  transport_type :: jsval
  connection_type :: jsval
  can_rate :: jsval
  can_myid :: jsval
  defaultUnit :: jsval

definition CONFIG_DEFAULTS :: config where
  "CONFIG_DEFAULTS =
     \<lparr> port_name = JStr ''use_--port_to_select_port'',
       port_baudRate = JNum (Fin 115200),
       port_autoOpen = JUndefined,
       transport_type = JStr ''rtu'',
       connection_type = JStr ''serial'',
       can_rate = JNum (Fin 250000),
       can_myid = JNum (Fin 254),
       defaultUnit = JNum (Fin 1) \<rparr>"

text \<open>The environment variables the script reads; a variable that is not set is \<open>None\<close>.\<close>

record env =
  MODBUS_PORT :: "string option"
  MODBUS_SLAVE :: "string option"
  MODBUS_BAUDRATE :: "string option"
  MODBUS_TRANSPORT :: "string option"
  MODBUS_CONNECTION :: "string option"
  MODBUS_CANRATE :: "string option"
  MODBUS_CANID :: "string option"

fun env_value :: "string option \<Rightarrow> jsval" where
  "env_value None = JUndefined"
| "env_value (Some s) = JStr s"

text \<open>
  What \<^verbatim>\<open>require(CONFIG_FILE)\<close> finds: no file, a file that is not valid JSON, or a
  configuration object. In the first two cases \<^verbatim>\<open>require\<close> raises an exception.
\<close>

datatype stored = Missing | Unparsable | Parsed config

fun require_config :: "stored \<Rightarrow> failure + config" where
  "require_config (Parsed c) = Inr c"
| "require_config _ = Inl Uncaught"

text \<open>Lines 81-92: the defaults are used with \<^verbatim>\<open>--default\<close> and when \<^verbatim>\<open>require\<close> raises.\<close>

definition loadConfig :: "args \<Rightarrow> stored \<Rightarrow> config" where
  "loadConfig a file =
     (if truthy (opt_default a) then CONFIG_DEFAULTS
      else case require_config file of
             Inr c \<Rightarrow> c
           | Inl e \<Rightarrow> CONFIG_DEFAULTS)"

text \<open>Lines 113-144: the chains \<^verbatim>\<open>args.x || process.env.X || config.x\<close>.\<close>

definition overrides :: "args \<Rightarrow> env \<Rightarrow> config \<Rightarrow> config" where
  "overrides a e c =
     c \<lparr> port_name := js_or (js_or (opt_port a) (env_value (MODBUS_PORT e))) (port_name c),
         defaultUnit := js_or (js_or (opt_slave a) (env_value (MODBUS_SLAVE e))) (defaultUnit c),
         port_baudRate :=
           js_or (js_or (js_or (js_or (opt_baudrate a) (opt_baud a)) (opt_baudRate a))
                    (env_value (MODBUS_BAUDRATE e))) (port_baudRate c),
         transport_type := js_or (js_or (opt_transport a) (env_value (MODBUS_TRANSPORT e))) (transport_type c),
         connection_type := js_or (js_or (opt_connection a) (env_value (MODBUS_CONNECTION e))) (connection_type c),
         can_rate := js_or (js_or (opt_canrate a) (env_value (MODBUS_CANRATE e))) (can_rate c),
         can_myid := js_or (js_or (opt_canid a) (env_value (MODBUS_CANID e))) (can_myid c) \<rparr>"

definition resolve :: "args \<Rightarrow> env \<Rightarrow> stored \<Rightarrow> config" where
  "resolve a e file = overrides a e (loadConfig a file)"

text \<open>
  The regular expression \<^verbatim>\<open>/^([0-9A-F]{2}[:-]){5}([0-9A-F]{2})$/i\<close>: five groups of two
  hexadecimal digits and a colon or hyphen, then two hexadecimal digits, and nothing else.
\<close>

definition hex_char :: "char \<Rightarrow> bool" where
  "hex_char c = (radix_digit 16 c \<noteq> None)"

fun mac_groups :: "nat \<Rightarrow> string \<Rightarrow> bool" where
  "mac_groups 0 s = (case s of [x, y] \<Rightarrow> hex_char x \<and> hex_char y | _ \<Rightarrow> False)"
| "mac_groups (Suc k) s =
     (case s of
        x # y # z # rest \<Rightarrow> hex_char x \<and> hex_char y \<and> (z = CHR '':'' \<or> z = CHR ''-'') \<and> mac_groups k rest
      | _ \<Rightarrow> False)"

definition macRE_test :: "jsval \<Rightarrow> bool" where
  "macRE_test v = mac_groups 5 (to_string v)"

text \<open>Lines 162-173: the Bluetooth rewrite, or \<^verbatim>\<open>autoOpen = false\<close> for every other port name.\<close>

definition macRewrite :: "args \<Rightarrow> config \<Rightarrow> config" where
  "macRewrite a c =
     (if \<not> truthy (opt_l a) \<and> truthy (port_name c) \<and> macRE_test (port_name c)
      then c \<lparr> transport_type := JStr ''ip'', connection_type := JStr ''ble'' \<rparr>
      else c \<lparr> port_autoOpen := JBool False \<rparr>)"

section \<open>The script from start to the first event\<close>

text \<open>
  What the process does to the outside, in order. Diagnostic messages and the set-up of
  the log sinks are not recorded.
\<close>

datatype effect =
    WriteConfigFile config
  | PrintHelp
  | PrintConfig config
  | ScanBleForList
  | ListSerialPorts
  | CreateMaster config
  | OpenSerialPort jsval jsval
  | ConnectWebsocket
  | ScanBleForDevice
  | OpenCanUsbCom jsval jsval jsval
  | DestroyMaster
  | CallMaster master_call
  | ConsoleInfo string
  | ScheduleDoAction

text \<open>\<open>Ended c\<close>: the process has terminated with exit code \<open>c\<close>. \<open>Running\<close>: it waits for events.\<close>

datatype status = Running | Ended nat

text \<open>
  The \<^verbatim>\<open>else\<close> branch at lines 604-816, once the action is accepted: the connection is set
  up by the kind of connection. For \<^verbatim>\<open>can-usb-com\<close> the connection type is set to
  \<^verbatim>\<open>generic\<close> before the master is created. Any other kind sets up nothing.
\<close>

definition connect :: "config \<Rightarrow> effect list" where
  "connect c =
     (if connection_type c = JStr ''serial'' then
        [CreateMaster c, OpenSerialPort (port_name c) (port_baudRate c)]
      else if connection_type c = JStr ''websocket'' then
        [ConnectWebsocket, CreateMaster c]
      else if connection_type c = JStr ''ble'' then
        [ScanBleForDevice]
      else if connection_type c = JStr ''can-usb-com'' then
        [CreateMaster (c \<lparr> connection_type := JStr ''generic'' \<rparr>),
         OpenCanUsbCom (port_name c) (can_rate c) (can_myid c)]
      else [])"

text \<open>
  The top level of the script, lines 81-173, 320-392 and 542-816, in the order of the
  source: load, override, save (lines 150-156; \<open>fs_ok\<close> tells whether
  \<^verbatim>\<open>fs.writeFileSync\<close> succeeds, and it raises otherwise), Bluetooth rewrite (lines 160-173),
  help, then list, show or command. The action is checked against
  \<^verbatim>\<open>['read', 'write', 'command']\<close> at line 609. At that point no master exists, so the
  \<^verbatim>\<open>master.destroy()\<close> inside \<^verbatim>\<open>exit\<close> raises and is caught.
\<close>

definition startup :: "args \<Rightarrow> env \<Rightarrow> stored \<Rightarrow> bool \<Rightarrow> effect list \<times> status" where
  "startup a e file fs_ok =
     (let c1 = resolve a e file in
      if truthy (opt_save a) \<and> \<not> fs_ok then ([], Ended (exit_code Uncaught))
      else
        let saved = (if truthy (opt_save a) then [WriteConfigFile c1] else []);
            c2 = macRewrite a c1
        in if truthy (opt_h a) then (saved @ [PrintHelp], Ended 0)
           else if truthy (opt_l a) then
             (if connection_type c2 = JStr ''ble'' then (saved @ [ScanBleForList], Running)
              else if connection_type c2 = JStr ''serial'' then (saved @ [ListSerialPorts], Running)
              else (saved, Running))
           else if truthy (opt_show a) then (saved @ [PrintConfig c2], Running)
           else
             let action = js_index (positional a) 0 in
             if action \<notin> {JStr ''read'', JStr ''write'', JStr ''command''} then (saved, Ended 1)
             else (saved @ connect c2, Running))"

section \<open>After the connection\<close>







section \<open>Vocabulary of the statements\<close>

text \<open>
  The value of a numeral in radix \<open>R\<close>, digit by digit from the left. \<open>all_digits R ds\<close>
  (above) says that \<open>ds\<close> is a non-empty string of radix-\<open>R\<close> digits.
\<close>

definition numeral_value :: "nat \<Rightarrow> string \<Rightarrow> nat" where
  "numeral_value R ds = foldl (\<lambda>acc c. acc * R + (case digit_val c of None \<Rightarrow> 0 | Some d \<Rightarrow> d)) 0 ds"

text \<open>
  The rest of a token after a decimal numeral does not continue it: it is empty, or starts
  with a character that is neither a decimal digit nor the \<^verbatim>\<open>x\<close> of a hexadecimal prefix.
\<close>

definition stops :: "string \<Rightarrow> bool" where
  "stops tail = (tail = [] \<or> (radix_digit 10 (hd tail) = None \<and> hd tail \<noteq> CHR ''x'' \<and> hd tail \<noteq> CHR ''X''))"




text \<open>A command line without options, and an environment without the variables.\<close>

definition no_options :: "jsval list \<Rightarrow> args" where
  "no_options argv =
     \<lparr> opt_default = JUndefined, opt_port = JUndefined, opt_slave = JUndefined,
       opt_unit = JUndefined, opt_baudrate = JUndefined, opt_baud = JUndefined, opt_baudRate = JUndefined,
       opt_transport = JUndefined, opt_connection = JUndefined, opt_canrate = JUndefined,
       opt_canid = JUndefined, opt_save = JUndefined, opt_l = JUndefined, opt_h = JUndefined,
       opt_show = JUndefined, opt_out = JUndefined, opt_loop = JUndefined,
       opt_length = JUndefined, positional = argv \<rparr>"

definition empty_env :: env where
  "empty_env =
     \<lparr> MODBUS_PORT = None, MODBUS_SLAVE = None, MODBUS_BAUDRATE = None, MODBUS_TRANSPORT = None,
       MODBUS_CONNECTION = None, MODBUS_CANRATE = None, MODBUS_CANID = None \<rparr>"


text \<open>
  Three command lines and an environment for the examples:
  \<^verbatim>\<open>mb read slave --port=AA:BB:CC:DD:EE:FF --save\<close>; every configuration option given;
  every variable set.
\<close>

definition bluetooth_save :: args where
  "bluetooth_save =
     (no_options [JStr ''read'', JStr ''slave''])
       \<lparr> opt_port := JStr ''AA:BB:CC:DD:EE:FF'', opt_save := JBool True \<rparr>"



section \<open>Reading numbers\<close>

lemma take_1_not_0x: "take (Suc 0) s \<noteq> ''0x''"
  by (cases s) simp_all

text \<open>
  The radix-16 branch is never taken: a string of at most one character is compared with
  a string of two. Hexadecimal tokens are recognised by \<^verbatim>\<open>parseInt\<close> itself.
\<close>

lemma hex_or_decimal_defined:
  "s \<noteq> JUndefined \<Longrightarrow> hex_or_decimal s = Inr (parseInt s None)"
  by (cases s) (simp_all add: hex_or_decimal_def take_1_not_0x)


lemma read_digits_run:
  assumes "\<forall>c\<in>set ds. radix_digit R c \<noteq> None"
    and "tail = [] \<or> radix_digit R (hd tail) = None"
  shows "read_digits R (ds @ tail) acc =
           (if ds = [] then acc
            else Some (foldl (\<lambda>acc c. acc * R + (case digit_val c of None \<Rightarrow> 0 | Some d \<Rightarrow> d))
                         (case acc of None \<Rightarrow> 0 | Some a \<Rightarrow> a) ds))"
  using assms
proof (induction ds arbitrary: acc)
  case Nil
  then show ?case by (cases tail) auto
next
  case (Cons c cs)
  from Cons.prems obtain d where d: "radix_digit R c = Some d" by auto
  then have dv: "digit_val c = Some d"
    by (auto simp: radix_digit_def split: option.splits if_splits)
  show ?case
    using Cons.IH [of "Some (case acc of None \<Rightarrow> d | Some a \<Rightarrow> a * R + d)"] Cons.prems d dv
    by (cases acc) auto
qed

lemma all_digits_D:
  "all_digits R ds \<Longrightarrow> ds \<noteq> [] \<and> (\<forall>c\<in>set ds. radix_digit R c \<noteq> None)"
  by (auto simp: all_digits_def list_all_iff)

lemma read_digits_numeral:
  assumes "all_digits R ds" and "tail = [] \<or> radix_digit R (hd tail) = None"
  shows "read_digits R (ds @ tail) None = Some (numeral_value R ds)"
  using read_digits_run [of ds R tail None] assms all_digits_D [of R ds]
  by (simp add: numeral_value_def)

lemma radix10_digit_chars:
  "radix_digit 10 c \<noteq> None \<Longrightarrow>
     \<not> is_white c \<and> c \<noteq> CHR ''-'' \<and> c \<noteq> CHR ''+'' \<and> c \<noteq> CHR ''x'' \<and> c \<noteq> CHR ''X''"
  by (auto simp: radix_digit_def digit_val_def is_white_def Let_def split: if_splits)

lemma parseInt_string_plain:
  assumes dw: "dropWhile is_white s = s" and ne: "s \<noteq> []"
    and sg: "hd s \<noteq> CHR ''-''" "hd s \<noteq> CHR ''+''"
    and pre: "take 2 s \<noteq> ''0x''" "take 2 s \<noteq> ''0X''"
    and rd: "read_digits 10 s None = Some v"
  shows "parseInt_string s None = Fin (int v)"
  unfolding parseInt_string_def Let_def dw
  using ne sg pre rd by simp

lemma parseInt_string_prefixed:
  assumes rd: "read_digits 16 s None = Some v"
  shows "parseInt_string (''0x'' @ s) None = Fin (int v)"
proof -
  have w: "\<not> is_white CHR ''0''" by (simp add: is_white_def)
  show ?thesis
    unfolding parseInt_string_def Let_def
    using rd w by simp
qed

lemma parseInt_string_decimal:
  assumes "all_digits 10 ds" and "stops tail"
  shows "parseInt_string (ds @ tail) None = Fin (int (numeral_value 10 ds))"
proof -
  from assms(1) obtain c cs where ds: "ds = c # cs" and c: "radix_digit 10 c \<noteq> None"
    and cs: "\<forall>x\<in>set cs. radix_digit 10 x \<noteq> None"
    using all_digits_D [of 10 ds] by (cases ds) auto
  from c have cc: "\<not> is_white c" "c \<noteq> CHR ''-''" "c \<noteq> CHR ''+''"
    using radix10_digit_chars by blast+
  have second: "take 2 (ds @ tail) \<noteq> ''0x'' \<and> take 2 (ds @ tail) \<noteq> ''0X''"
  proof (cases cs)
    case Nil
    then show ?thesis using ds assms(2) by (cases tail) (auto simp: stops_def)
  next
    case (Cons y ys)
    with cs have "radix_digit 10 y \<noteq> None" by simp
    then have "y \<noteq> CHR ''x'' \<and> y \<noteq> CHR ''X''" using radix10_digit_chars by blast
    with Cons ds show ?thesis by simp
  qed
  have rd: "read_digits 10 (ds @ tail) None = Some (numeral_value 10 ds)"
    using read_digits_numeral [OF assms(1), of tail] assms(2) by (auto simp: stops_def)
  show ?thesis
  proof (rule parseInt_string_plain [OF _ _ _ _ _ _ rd])
    show "dropWhile is_white (ds @ tail) = ds @ tail" using ds cc by simp
    show "ds @ tail \<noteq> []" using ds by simp
    show "hd (ds @ tail) \<noteq> CHR ''-''" "hd (ds @ tail) \<noteq> CHR ''+''" using ds cc by simp_all
    show "take 2 (ds @ tail) \<noteq> ''0x''" "take 2 (ds @ tail) \<noteq> ''0X''" using second by simp_all
  qed
qed

lemma parseInt_string_hex:
  assumes "all_digits 16 ds" and "tail = [] \<or> radix_digit 16 (hd tail) = None"
  shows "parseInt_string (''0x'' @ ds @ tail) None = Fin (int (numeral_value 16 ds))"
  using parseInt_string_prefixed [OF read_digits_numeral [OF assms]] .

text \<open>
  C7. \<^verbatim>\<open>parseNumber\<close> returns the default for an undefined token. A token made of
  \<^verbatim>\<open>0x\<close> and hexadecimal digits is read as that hexadecimal numeral, a token made of
  decimal digits as that decimal numeral (for values that a JavaScript number holds
  exactly). In particular \<^verbatim>\<open>parseNumber("0x1A", 0) = 26\<close>,
  \<^verbatim>\<open>parseNumber(undefined, 7) = 7\<close> and \<^verbatim>\<open>parseNumber("42", 0) = 42\<close>.
\<close>

theorem parseNumber_hex_or_decimal:
  "parseNumber JUndefined def = Inr def \<and>
   (all_digits 16 ds \<and> numeral_value 16 ds \<le> 2 ^ 53 \<longrightarrow>
      parseNumber (JStr (''0x'' @ ds)) def = Inr (Fin (int (numeral_value 16 ds)))) \<and>
   (all_digits 10 ds \<and> numeral_value 10 ds \<le> 2 ^ 53 \<longrightarrow>
      parseNumber (JStr ds) def = Inr (Fin (int (numeral_value 10 ds)))) \<and>
   parseNumber (JStr ''0x1A'') (Fin 0) = Inr (Fin 26) \<and>
   parseNumber JUndefined (Fin 7) = Inr (Fin 7) \<and>
   parseNumber (JStr ''42'') (Fin 0) = Inr (Fin 42)"
proof -
  have u: "parseNumber JUndefined d = Inr d" for d
    by (simp add: parseNumber_def)
  have s: "parseNumber (JStr t) d = Inr (parseInt_string t None)" for t d
    by (simp add: parseNumber_def hex_or_decimal_defined parseInt_def)
  have h: "all_digits 16 ds \<Longrightarrow> parseInt_string (''0x'' @ ds) None = Fin (int (numeral_value 16 ds))"
    using parseInt_string_hex [of ds "[]"] by simp
  have d: "all_digits 10 ds \<Longrightarrow> parseInt_string ds None = Fin (int (numeral_value 10 ds))"
    using parseInt_string_decimal [of ds "[]"] by (simp add: stops_def)
  have e1: "parseInt_string ''0x1A'' None = Fin 26"
    by (simp add: parseInt_string_def is_white_def radix_digit_def digit_val_def)
  have e2: "parseInt_string ''42'' None = Fin 42"
    by (simp add: parseInt_string_def is_white_def radix_digit_def digit_val_def)
  show ?thesis
    using h d by (simp add: u s e1 e2)
qed

text \<open>C7 at the tokens \<^verbatim>\<open>0xfF0\<close> and \<^verbatim>\<open>0129\<close>.\<close>

theorem parseNumber_hex_or_decimal_witness:
  "all_digits 16 ''fF0'' \<and> numeral_value 16 ''fF0'' \<le> 2 ^ 53 \<and>
   parseNumber (JStr ''0xfF0'') (Fin 1) = Inr (Fin 4080) \<and>
   all_digits 10 ''0129'' \<and> numeral_value 10 ''0129'' \<le> 2 ^ 53 \<and>
   parseNumber (JStr ''0129'') (Fin 1) = Inr (Fin 129)"
proof -
  have a: "all_digits 16 ''fF0''" "all_digits 10 ''0129''"
    by (simp_all add: all_digits_def radix_digit_def digit_val_def)
  have v: "numeral_value 16 ''fF0'' = 4080" "numeral_value 10 ''0129'' = 129"
    by (simp_all add: numeral_value_def digit_val_def)
  show ?thesis
    using parseNumber_hex_or_decimal [of "Fin 1" "''fF0''"]
      parseNumber_hex_or_decimal [of "Fin 1" "''0129''"] a v
    by simp
qed

section \<open>Byte and word sequences from tokens\<close>




















section \<open>Dispatch\<close>

lemma positional_no_options [simp]: "positional (no_options argv) = argv"
  by (simp add: no_options_def)










section \<open>Configuration and start-up\<close>

lemma mac_example: "macRE_test (JStr ''AA:BB:CC:DD:EE:FF'')"
  by (simp add: macRE_test_def hex_char_def radix_digit_def digit_val_def numeral_nat)




text \<open>
  C6, as stated, fails: the file is written (lines 150-156) before the Bluetooth rewrite
  (lines 160-165). For \<^verbatim>\<open>mb read slave --port=AA:BB:CC:DD:EE:FF --save\<close> the written
  configuration has the connection \<^verbatim>\<open>serial\<close> and the transport \<^verbatim>\<open>rtu\<close>, while the
  configuration used afterwards has \<^verbatim>\<open>ble\<close> and \<^verbatim>\<open>ip\<close>.
\<close>

theorem saved_config_precedes_bluetooth_rewrite:
  "startup bluetooth_save empty_env Missing True =
     ([WriteConfigFile (CONFIG_DEFAULTS \<lparr> port_name := JStr ''AA:BB:CC:DD:EE:FF'' \<rparr>), ScanBleForDevice], Running) \<and>
   connection_type (CONFIG_DEFAULTS \<lparr> port_name := JStr ''AA:BB:CC:DD:EE:FF'' \<rparr>) = JStr ''serial'' \<and>
   transport_type (CONFIG_DEFAULTS \<lparr> port_name := JStr ''AA:BB:CC:DD:EE:FF'' \<rparr>) = JStr ''rtu'' \<and>
   connection_type (macRewrite bluetooth_save (resolve bluetooth_save empty_env Missing)) = JStr ''ble'' \<and>
   transport_type (macRewrite bluetooth_save (resolve bluetooth_save empty_env Missing)) = JStr ''ip''"
proof -
  have r: "resolve bluetooth_save empty_env Missing = CONFIG_DEFAULTS \<lparr> port_name := JStr ''AA:BB:CC:DD:EE:FF'' \<rparr>"
    by (simp add: resolve_def overrides_def loadConfig_def bluetooth_save_def no_options_def empty_env_def
        js_or_def CONFIG_DEFAULTS_def)
  have m: "macRewrite bluetooth_save (CONFIG_DEFAULTS \<lparr> port_name := JStr ''AA:BB:CC:DD:EE:FF'' \<rparr>) =
      CONFIG_DEFAULTS \<lparr> port_name := JStr ''AA:BB:CC:DD:EE:FF'', transport_type := JStr ''ip'', connection_type := JStr ''ble'' \<rparr>"
    using mac_example by (simp add: macRewrite_def bluetooth_save_def no_options_def)
  have o: "truthy (opt_save bluetooth_save)" "\<not> truthy (opt_h bluetooth_save)" "\<not> truthy (opt_l bluetooth_save)"
    "\<not> truthy (opt_show bluetooth_save)" "js_index (positional bluetooth_save) 0 = JStr ''read''"
    by (simp_all add: bluetooth_save_def no_options_def js_index_def)
  show ?thesis
    unfolding startup_def Let_def r m
    using o by (simp add: connect_def CONFIG_DEFAULTS_def)
qed

text \<open>
  C6, amended. With the save option, the first effect of the script is the write of the
  configuration as resolved by the override chain (before the Bluetooth rewrite), so it
  precedes every connection and every dispatch; when the write fails the process ends
  with exit code 1 and nothing else is done. Without the option nothing is written.
\<close>

theorem save_writes_resolved_config_first:
  "(truthy (opt_save a) \<longrightarrow>
      (\<exists>rest. fst (startup a e file True) = WriteConfigFile (resolve a e file) # rest) \<and>
      startup a e file False = ([], Ended 1)) \<and>
   (\<not> truthy (opt_save a) \<longrightarrow> WriteConfigFile c \<notin> set (fst (startup a e file fs_ok)))"
  by (auto simp: startup_def Let_def connect_def)

text \<open>C6, amended, at \<^verbatim>\<open>mb read slave --port=AA:BB:CC:DD:EE:FF --save\<close> and at \<^verbatim>\<open>mb read slave\<close>.\<close>

theorem save_writes_resolved_config_first_witness:
  "truthy (opt_save bluetooth_save) \<and>
   fst (startup bluetooth_save empty_env Missing True) =
     [WriteConfigFile (resolve bluetooth_save empty_env Missing), ScanBleForDevice] \<and>
   startup bluetooth_save empty_env Missing False = ([], Ended 1) \<and>
   \<not> truthy (opt_save (no_options [JStr ''read'', JStr ''slave''])) \<and>
   startup (no_options [JStr ''read'', JStr ''slave'']) empty_env Missing False =
     ([CreateMaster (CONFIG_DEFAULTS \<lparr> port_autoOpen := JBool False \<rparr>),
       OpenSerialPort (JStr ''use_--port_to_select_port'') (JNum (Fin 115200))], Running)"
proof -
  have s: "truthy (opt_save bluetooth_save)" "\<not> truthy (opt_save (no_options [JStr ''read'', JStr ''slave'']))"
    by (simp_all add: bluetooth_save_def no_options_def)
  have r: "resolve bluetooth_save empty_env Missing = CONFIG_DEFAULTS \<lparr> port_name := JStr ''AA:BB:CC:DD:EE:FF'' \<rparr>"
    by (simp add: resolve_def overrides_def loadConfig_def bluetooth_save_def no_options_def empty_env_def
        js_or_def CONFIG_DEFAULTS_def)
  have m: "macRewrite bluetooth_save (CONFIG_DEFAULTS \<lparr> port_name := JStr ''AA:BB:CC:DD:EE:FF'' \<rparr>) =
      CONFIG_DEFAULTS \<lparr> port_name := JStr ''AA:BB:CC:DD:EE:FF'', transport_type := JStr ''ip'', connection_type := JStr ''ble'' \<rparr>"
    using mac_example by (simp add: macRewrite_def bluetooth_save_def no_options_def)
  have o: "\<not> truthy (opt_h bluetooth_save)" "\<not> truthy (opt_l bluetooth_save)"
    "\<not> truthy (opt_show bluetooth_save)" "js_index (positional bluetooth_save) 0 = JStr ''read''"
    by (simp_all add: bluetooth_save_def no_options_def js_index_def)
  have f: "fst (startup bluetooth_save empty_env Missing True) =
     [WriteConfigFile (resolve bluetooth_save empty_env Missing), ScanBleForDevice]"
    unfolding startup_def Let_def r m
    using o s by (simp add: connect_def CONFIG_DEFAULTS_def)
  have r2: "resolve (no_options [JStr ''read'', JStr ''slave'']) empty_env Missing = CONFIG_DEFAULTS"
    by (simp add: resolve_def overrides_def loadConfig_def no_options_def empty_env_def
        js_or_def CONFIG_DEFAULTS_def)
  have nm: "\<not> macRE_test (JStr ''use_--port_to_select_port'')"
    by (simp add: macRE_test_def hex_char_def radix_digit_def digit_val_def numeral_nat)
  have g: "startup (no_options [JStr ''read'', JStr ''slave'']) empty_env Missing False =
     ([CreateMaster (CONFIG_DEFAULTS \<lparr> port_autoOpen := JBool False \<rparr>),
       OpenSerialPort (JStr ''use_--port_to_select_port'') (JNum (Fin 115200))], Running)"
    unfolding startup_def Let_def r2
    using nm by (simp add: macRewrite_def connect_def CONFIG_DEFAULTS_def no_options_def js_index_def)
  show ?thesis
    using save_writes_resolved_config_first [of bluetooth_save empty_env Missing]
      save_writes_resolved_config_first [of "no_options [JStr ''read'', JStr ''slave'']" empty_env Missing _ False]
      s f g
    by simp
qed

text \<open>
  C8. Without \<^verbatim>\<open>--default\<close>, a stored file that is missing and one that does not parse
  both give the built-in defaults; resolution and the whole start-up then run exactly as
  with a missing file, which is also how they run with a valid file that holds the
  defaults: the unreadable file adds no exit of its own.
\<close>

theorem unreadable_defaults_fall_back:
  "\<not> truthy (opt_default a) \<longrightarrow>
     loadConfig a Missing = CONFIG_DEFAULTS \<and>
     loadConfig a Unparsable = CONFIG_DEFAULTS \<and>
     resolve a e Unparsable = resolve a e Missing \<and>
     startup a e Unparsable fs_ok = startup a e Missing fs_ok \<and>
     startup a e Unparsable fs_ok = startup a e (Parsed CONFIG_DEFAULTS) fs_ok"
  by (simp add: loadConfig_def resolve_def startup_def)

text \<open>C8 at \<^verbatim>\<open>mb --show\<close> with an unparsable file: the defaults are printed and the process goes on.\<close>

theorem unreadable_defaults_fall_back_witness:
  "\<not> truthy (opt_default ((no_options []) \<lparr> opt_show := JBool True \<rparr>)) \<and>
   resolve ((no_options []) \<lparr> opt_show := JBool True \<rparr>) empty_env Unparsable = CONFIG_DEFAULTS \<and>
   startup ((no_options []) \<lparr> opt_show := JBool True \<rparr>) empty_env Unparsable True =
     ([PrintConfig (CONFIG_DEFAULTS \<lparr> port_autoOpen := JBool False \<rparr>)], Running) \<and>
   startup ((no_options []) \<lparr> opt_show := JBool True \<rparr>) empty_env Missing True =
     ([PrintConfig (CONFIG_DEFAULTS \<lparr> port_autoOpen := JBool False \<rparr>)], Running)"
proof -
  have d: "\<not> truthy (opt_default ((no_options []) \<lparr> opt_show := JBool True \<rparr>))"
    by (simp add: no_options_def)
  have r: "resolve ((no_options []) \<lparr> opt_show := JBool True \<rparr>) empty_env Missing = CONFIG_DEFAULTS"
    by (simp add: resolve_def overrides_def loadConfig_def no_options_def empty_env_def
        js_or_def CONFIG_DEFAULTS_def)
  have nm: "\<not> macRE_test (JStr ''use_--port_to_select_port'')"
    by (simp add: macRE_test_def hex_char_def radix_digit_def digit_val_def numeral_nat)
  have g: "startup ((no_options []) \<lparr> opt_show := JBool True \<rparr>) empty_env Missing True =
     ([PrintConfig (CONFIG_DEFAULTS \<lparr> port_autoOpen := JBool False \<rparr>)], Running)"
    unfolding startup_def Let_def r
    using nm by (simp add: macRewrite_def CONFIG_DEFAULTS_def no_options_def)
  show ?thesis
    using unreadable_defaults_fall_back [of "(no_options []) \<lparr> opt_show := JBool True \<rparr>" empty_env True] d r g
    by simp
qed

section \<open>The completion callback\<close>



end
